theory Spec2Isabelle
  imports Complex_Main "HOL-Library.Log_Nat"
begin

section \<open>Python strings\<close>

text \<open>
  A Python \<open>str\<close> is modelled as a \<open>string\<close> whose characters are the code points
  0 to 255 (Latin-1); a log line holding a code point above 255 is outside the model.
  The helpers below follow the interpreter's behaviour on that range.
\<close>

definition py_isspace :: "char \<Rightarrow> bool" where
  \<comment> \<open>\<open>str.isspace\<close>, which is also what \<open>str.strip()\<close> removes and what \<open>\s\<close> matches\<close>
  "py_isspace c = ((of_char c :: nat) \<in> {9, 10, 11, 12, 13, 28, 29, 30, 31, 32, 133, 160})"

definition is_ascii_digit :: "char \<Rightarrow> bool" where
  \<comment> \<open>the class \<open>\d\<close>: the decimal digits; below 256 these are \<open>0\<close> to \<open>9\<close>\<close>
  "is_ascii_digit c = (let n = (of_char c :: nat) in 48 \<le> n \<and> n \<le> 57)"

definition py_isdigit_char :: "char \<Rightarrow> bool" where
  \<comment> \<open>\<open>str.isdigit\<close> also accepts the superscript digits U+00B2, U+00B3, U+00B9\<close>
  "py_isdigit_char c = (is_ascii_digit c \<or> (of_char c :: nat) \<in> {178, 179, 185})"

definition py_isdigit :: "string \<Rightarrow> bool" where
  "py_isdigit s = (s \<noteq> [] \<and> list_all py_isdigit_char s)"

definition lower_char :: "char \<Rightarrow> char" where
  "lower_char c = (let n = (of_char c :: nat) in
     if (65 \<le> n \<and> n \<le> 90) \<or> (192 \<le> n \<and> n \<le> 222 \<and> n \<noteq> 215)
     then char_of (n + 32) else c)"

definition lower :: "string \<Rightarrow> string" where
  "lower s = map lower_char s"

definition lstrip :: "string \<Rightarrow> string" where
  "lstrip s = dropWhile py_isspace s"

definition rstrip :: "string \<Rightarrow> string" where
  "rstrip s = rev (dropWhile py_isspace (rev s))"

definition strip :: "string \<Rightarrow> string" where
  "strip s = rstrip (lstrip s)"

definition startswith :: "string \<Rightarrow> string \<Rightarrow> bool" where
  "startswith s p = (take (length p) s = p)"

fun contains :: "string \<Rightarrow> string \<Rightarrow> bool" where
  \<comment> \<open>\<open>contains sub s\<close> is Python's \<open>sub in s\<close>\<close>
  "contains sub [] = (sub = [])"
| "contains sub (c # cs) = (startswith (c # cs) sub \<or> contains sub cs)"

definition py_isword :: "char \<Rightarrow> bool" where
  \<comment> \<open>the class \<open>\w\<close>: alphanumeric characters and the underscore\<close>
  "py_isword c = (let n = (of_char c :: nat) in
     (48 \<le> n \<and> n \<le> 57) \<or> (65 \<le> n \<and> n \<le> 90) \<or> n = 95 \<or> (97 \<le> n \<and> n \<le> 122)
     \<or> n \<in> {170, 178, 179, 181, 185, 186, 188, 189, 190}
     \<or> (192 \<le> n \<and> n \<noteq> 215 \<and> n \<noteq> 247))"

fun count_char :: "char \<Rightarrow> string \<Rightarrow> nat" where
  \<comment> \<open>\<open>s.count(c)\<close> for a one-character \<open>c\<close>\<close>
  "count_char c [] = 0"
| "count_char c (x # xs) = (if x = c then Suc (count_char c xs) else count_char c xs)"

fun split_on :: "char \<Rightarrow> string \<Rightarrow> string list" where
  \<comment> \<open>\<open>s.split(c)\<close> for a one-character separator\<close>
  "split_on c [] = [[]]"
| "split_on c (x # xs) =
     (if x = c then [] # split_on c xs
      else (case split_on c xs of [] \<Rightarrow> [[x]] | p # ps \<Rightarrow> (x # p) # ps))"

definition rsplit1 :: "char \<Rightarrow> string \<Rightarrow> string \<times> string" where
  \<comment> \<open>\<open>s.rsplit(c, 1)\<close> for a string that holds \<open>c\<close>: the parts around its last occurrence\<close>
  "rsplit1 c s =
     (let r = rev s in (rev (drop 1 (dropWhile (\<lambda>x. x \<noteq> c) r)), rev (takeWhile (\<lambda>x. x \<noteq> c) r)))"

definition rstrip_chars :: "string \<Rightarrow> string \<Rightarrow> string" where
  \<comment> \<open>\<open>s.rstrip(chars)\<close>\<close>
  "rstrip_chars chars s = rev (dropWhile (\<lambda>x. x \<in> set chars) (rev s))"

fun replace_all :: "string \<Rightarrow> string \<Rightarrow> nat \<Rightarrow> string \<Rightarrow> string" where
  \<comment> \<open>\<open>s.replace(old, new)\<close> for a non-empty \<open>old\<close>: \<open>replace_all old new 0 s\<close>; the
     counter is the number of characters still covered by the last replaced occurrence\<close>
  "replace_all old new skip [] = []"
| "replace_all old new skip (c # cs) =
     (if skip > 0 then replace_all old new (skip - 1) cs
      else if startswith (c # cs) old then new @ replace_all old new (length old - 1) cs
      else c # replace_all old new 0 cs)"

definition nat_of_digits :: "string \<Rightarrow> nat" where
  "nat_of_digits s = foldl (\<lambda>acc c. 10 * acc + (of_char c - 48)) 0 s"

datatype py_error = ValueError | OverflowError | TypeError | DatabaseError

definition py_int :: "string \<Rightarrow> py_error + int" where
  \<comment> \<open>\<open>int(s)\<close> for a string that passed \<open>isdigit()\<close> or matched \<open>\d+\<close>: superscript
     digits pass \<open>isdigit()\<close> and are refused by \<open>int\<close>\<close>
  "py_int s = (if s \<noteq> [] \<and> list_all is_ascii_digit s then Inr (int (nat_of_digits s))
               else Inl ValueError)"

section \<open>Regular expressions (the \<open>re\<close> module)\<close>

text \<open>
  A backtracking matcher with the priorities of Python's \<open>re\<close>: alternatives are tried
  from left to right, a greedy repetition tries one more iteration first, a lazy one
  tries to stop first, and the first complete match wins. Each pattern of the source is
  transcribed below as a term of type \<open>re\<close>.
\<close>

datatype cclass = CDigit | CSpace | CNonSpace | CDot | CLit char
  | CSet "(char \<times> char) list" | CNotSet "(char \<times> char) list"

fun in_ranges :: "char \<Rightarrow> (char \<times> char) list \<Rightarrow> bool" where
  "in_ranges c [] = False"
| "in_ranges c ((lo, hi) # rs) =
     (((of_char lo :: nat) \<le> of_char c \<and> (of_char c :: nat) \<le> of_char hi) \<or> in_ranges c rs)"

fun cmatch :: "cclass \<Rightarrow> char \<Rightarrow> bool" where
  "cmatch CDigit c = is_ascii_digit c"
| "cmatch CSpace c = py_isspace c"
| "cmatch CNonSpace c = (\<not> py_isspace c)"
| "cmatch CDot c = (c \<noteq> CHR 0x0A)"
| "cmatch (CLit x) c = (c = x)"
| "cmatch (CSet rs) c = in_ranges c rs"
| "cmatch (CNotSet rs) c = (\<not> in_ranges c rs)"

datatype re = Eps | Atom cclass | Seq re re | Alt re re
  | Rep nat "nat option" bool re | Grp string re | Bol | Eol | WordB

record mstate =
  prev :: "char option"
  rest :: string
  caps :: "(string \<times> string) list"

fun rep_loop :: "(mstate \<Rightarrow> (mstate \<Rightarrow> 'a option) \<Rightarrow> 'a option) \<Rightarrow> nat \<Rightarrow> nat option \<Rightarrow> bool
    \<Rightarrow> nat \<Rightarrow> nat \<Rightarrow> mstate \<Rightarrow> (mstate \<Rightarrow> 'a option) \<Rightarrow> 'a option" where
  \<comment> \<open>\<open>rep_loop body mn mx greedy fuel cnt\<close>: \<open>cnt\<close> iterations are done; every iteration
     consumes a character, so the number of characters left is fuel enough\<close>
  "rep_loop body mn mx greedy 0 cnt s k = (if mn \<le> cnt then k s else None)"
| "rep_loop body mn mx greedy (Suc fuel) cnt s k =
     (if (case mx of None \<Rightarrow> True | Some b \<Rightarrow> cnt < b) then
        (if greedy then
           (case body s (\<lambda>s'. if length (rest s') < length (rest s)
                                 then rep_loop body mn mx greedy fuel (Suc cnt) s' k else None) of
              Some r \<Rightarrow> Some r
            | None \<Rightarrow> if mn \<le> cnt then k s else None)
         else
           (case (if mn \<le> cnt then k s else None) of
              Some r \<Rightarrow> Some r
            | None \<Rightarrow> body s (\<lambda>s'. if length (rest s') < length (rest s)
                                 then rep_loop body mn mx greedy fuel (Suc cnt) s' k else None)))
      else (if mn \<le> cnt then k s else None))"

definition word_at :: "char option \<Rightarrow> bool" where
  "word_at c = (case c of None \<Rightarrow> False | Some x \<Rightarrow> py_isword x)"

primrec rmatch :: "re \<Rightarrow> mstate \<Rightarrow> (mstate \<Rightarrow> 'a option) \<Rightarrow> 'a option" where
  "rmatch Eps s k = k s"
| "rmatch (Atom c) s k =
     (case rest s of [] \<Rightarrow> None
      | x # xs \<Rightarrow> if cmatch c x then k (s\<lparr>prev := Some x, rest := xs\<rparr>) else None)"
| "rmatch (Seq a b) s k = rmatch a s (\<lambda>s'. rmatch b s' k)"
| "rmatch (Alt a b) s k = (case rmatch a s k of Some r \<Rightarrow> Some r | None \<Rightarrow> rmatch b s k)"
| "rmatch (Rep mn mx greedy r) s k = rep_loop (rmatch r) mn mx greedy (length (rest s)) 0 s k"
| "rmatch (Grp n r) s k =
     rmatch r s
       (\<lambda>s'. k (s'\<lparr>caps := (n, take (length (rest s) - length (rest s')) (rest s)) # caps s'\<rparr>))"
| "rmatch Bol s k = (if prev s = None then k s else None)"
| "rmatch Eol s k = (if rest s = [] \<or> rest s = [CHR 0x0A] then k s else None)"
| "rmatch WordB s k =
     (if word_at (prev s) \<noteq> word_at (case rest s of [] \<Rightarrow> None | x # _ \<Rightarrow> Some x)
      then k s else None)"

definition lit :: "string \<Rightarrow> re" where
  "lit s = foldr (\<lambda>c r. Seq (Atom (CLit c)) r) s Eps"

definition seqs :: "re list \<Rightarrow> re" where
  "seqs rs = foldr Seq rs Eps"

definition alts :: "re list \<Rightarrow> re" where
  \<comment> \<open>\<open>a|b|c\<close>, for a non-empty list\<close>
  "alts rs = foldr Alt (butlast rs) (last rs)"

definition plus :: "cclass \<Rightarrow> re" where
  "plus c = Rep 1 None True (Atom c)"

definition star :: "cclass \<Rightarrow> re" where
  "star c = Rep 0 None True (Atom c)"

definition opt :: "re \<Rightarrow> re" where
  "opt r = Rep 0 (Some 1) True r"

definition rng :: "char \<Rightarrow> char \<Rightarrow> cclass" where
  "rng lo hi = CSet [(lo, hi)]"

definition re_match :: "re \<Rightarrow> string \<Rightarrow> mstate option" where
  \<comment> \<open>\<open>re.match\<close>: the match starts at the first character\<close>
  "re_match r s = rmatch r \<lparr>prev = None, rest = s, caps = []\<rparr> Some"

fun search_from :: "re \<Rightarrow> string \<Rightarrow> char option \<Rightarrow> string \<Rightarrow> (string \<times> mstate) option" where
  \<comment> \<open>the leftmost match, with the text before it (reversed in the accumulator)\<close>
  "search_from r acc p s =
     (case rmatch r \<lparr>prev = p, rest = s, caps = []\<rparr> Some of
        Some st \<Rightarrow> Some (rev acc, st)
      | None \<Rightarrow> (case s of [] \<Rightarrow> None | x # xs \<Rightarrow> search_from r (x # acc) (Some x) xs))"

definition re_search :: "re \<Rightarrow> string \<Rightarrow> (string \<times> mstate) option" where
  \<comment> \<open>\<open>re.search\<close>: the text before the match and the state at its end\<close>
  "re_search r s = search_from r [] None s"

definition group :: "mstate \<Rightarrow> string \<Rightarrow> string option" where
  \<comment> \<open>\<open>m.group(name)\<close>: \<open>None\<close> for a group that took no part in the match\<close>
  "group st n = map_of (caps st) n"

definition group_or_empty :: "mstate \<Rightarrow> string \<Rightarrow> string" where
  \<comment> \<open>\<open>m.group(name) or ""\<close>\<close>
  "group_or_empty st n = (case group st n of None \<Rightarrow> [] | Some v \<Rightarrow> v)"

section \<open>Data model (models.py)\<close>

record datetime =
  year :: nat
  month :: nat
  day :: nat
  hour :: nat
  minute :: nat
  second :: nat
  microsecond :: nat

record AccessEvent =
  event_time :: datetime
  user_email :: string
  src :: string
  dest_raw :: string
  dest_host :: string
  dest_port :: "int option"
  status :: string
  detour :: string
  reason :: string
  is_domain :: bool
  confidence :: string

record DNSEvent =
  dns_event_time :: datetime
  dns_server :: string
  domain :: string
  ips_json :: string
  dns_status :: string
  elapsed_ms :: "int option"
  error_text :: string

record ParsedEvent =
  pe_event_time :: datetime
  event_type :: string
  raw_line :: string
  raw_hash :: string
  access :: "AccessEvent option"
  dns :: "DNSEvent option"

record ParsedErrorEvent =
  err_event_time :: datetime
  level :: string
  session_id :: "int option"
  component :: string
  message :: string
  err_src :: string
  err_dest_raw :: string
  err_dest_host :: string
  err_dest_port :: "int option"
  category :: string
  signature_hash :: string
  is_noise :: bool
  err_raw_line :: string
  err_raw_hash :: string

section \<open>Access-side filter (filtering.py)\<close>

text \<open>
  The four attributes of the settings object that \<open>should_drop_event\<close> reads; the
  collector passes a namespace holding exactly these.
\<close>

record FilterConfig =
  drop_api_to_api :: bool
  drop_loopback_traffic :: bool
  drop_invalid_vless_probe :: bool
  exclude_detours :: "string list"

definition should_drop_event :: "ParsedEvent \<Rightarrow> FilterConfig \<Rightarrow> bool" where
  "should_drop_event ev settings =
     (case access ev of
        None \<Rightarrow> False
      | Some a \<Rightarrow>
          if drop_api_to_api settings \<and> detour a = ''api -> api'' then True
          else if exclude_detours settings \<noteq> [] \<and> detour a \<in> set (exclude_detours settings)
            then True
          else if drop_invalid_vless_probe settings
                  \<and> (status a = ''rejected''
                       \<and> dest_raw a = ''proxy/vless/encoding:''
                       \<and> contains ''invalid request version'' (lower (reason a)))
            then True
          else if drop_loopback_traffic settings then
            (let s = lower (src a); dst = lower (dest_host a) in
               if startswith s ''127.0.0.1'' \<or> startswith s ''[::1]'' \<or> startswith s ''::1''
                 then True
               else if dst \<in> set [''127.0.0.1'', ''localhost'', ''::1'', ''[::1]''] then True
               else False)
          else False)"

subsection \<open>The four drop predicates of the specification\<close>

definition spec_api_to_api :: "FilterConfig \<Rightarrow> AccessEvent \<Rightarrow> bool" where
  "spec_api_to_api cfg a = (drop_api_to_api cfg \<and> detour a = ''api -> api'')"

definition spec_excluded_detour :: "FilterConfig \<Rightarrow> AccessEvent \<Rightarrow> bool" where
  "spec_excluded_detour cfg a = (detour a \<in> set (exclude_detours cfg))"

definition spec_invalid_vless_probe :: "FilterConfig \<Rightarrow> AccessEvent \<Rightarrow> bool" where
  "spec_invalid_vless_probe cfg a =
     (drop_invalid_vless_probe cfg \<and> status a = ''rejected''
        \<and> dest_raw a = ''proxy/vless/encoding:''
        \<and> contains ''invalid request version'' (lower (reason a)))"

definition spec_loopback :: "FilterConfig \<Rightarrow> AccessEvent \<Rightarrow> bool" where
  "spec_loopback cfg a =
     (drop_loopback_traffic cfg
        \<and> ((startswith (lower (src a)) ''127.0.0.1'' \<or> startswith (lower (src a)) ''[::1]''
              \<or> startswith (lower (src a)) ''::1'')
           \<or> lower (dest_host a) \<in> {''127.0.0.1'', ''localhost'', ''::1'', ''[::1]''}))"

section \<open>Properties of the filter\<close>

section \<open>Library functions used by the parsers\<close>

subsection \<open>\<open>datetime.strptime\<close> for the two timestamp formats\<close>

text \<open>
  \<open>strptime\<close> turns the format into a pattern, matches it at the start of the text,
  refuses text that is left over, and builds the date, which refuses a year 0, a day
  the month does not have and a second above 59. All of these raise \<open>ValueError\<close>,
  modelled as \<open>None\<close>.
\<close>

definition STRPTIME_SECONDS_RE :: re where
  \<comment> \<open>the pattern of \<open>%Y/%m/%d %H:%M:%S\<close>\<close>
  "STRPTIME_SECONDS_RE = seqs [
     Grp ''Y'' (seqs [Atom CDigit, Atom CDigit, Atom CDigit, Atom CDigit]),
     lit ''/'',
     Grp ''m'' (alts [Seq (lit ''1'') (Atom (rng CHR ''0'' CHR ''2'')),
                      Seq (lit ''0'') (Atom (rng CHR ''1'' CHR ''9'')),
                      Atom (rng CHR ''1'' CHR ''9'')]),
     lit ''/'',
     Grp ''d'' (alts [Seq (lit ''3'') (Atom (rng CHR ''0'' CHR ''1'')),
                      Seq (Atom (rng CHR ''1'' CHR ''2'')) (Atom CDigit),
                      Seq (lit ''0'') (Atom (rng CHR ''1'' CHR ''9'')),
                      Atom (rng CHR ''1'' CHR ''9''),
                      Seq (lit '' '') (Atom (rng CHR ''1'' CHR ''9''))]),
     plus CSpace,
     Grp ''H'' (alts [Seq (lit ''2'') (Atom (rng CHR ''0'' CHR ''3'')),
                      Seq (Atom (rng CHR ''0'' CHR ''1'')) (Atom CDigit),
                      Atom CDigit]),
     lit '':'',
     Grp ''M'' (alts [Seq (Atom (rng CHR ''0'' CHR ''5'')) (Atom CDigit), Atom CDigit]),
     lit '':'',
     Grp ''S'' (alts [Seq (lit ''6'') (Atom (rng CHR ''0'' CHR ''1'')),
                      Seq (Atom (rng CHR ''0'' CHR ''5'')) (Atom CDigit),
                      Atom CDigit])]"

definition STRPTIME_MICROS_RE :: re where
  \<comment> \<open>the pattern of \<open>%Y/%m/%d %H:%M:%S.%f\<close>\<close>
  "STRPTIME_MICROS_RE = seqs [STRPTIME_SECONDS_RE, lit ''.'',
     Grp ''f'' (Rep 1 (Some 6) True (Atom (rng CHR ''0'' CHR ''9'')))]"

definition is_leap :: "nat \<Rightarrow> bool" where
  "is_leap y = (y mod 4 = 0 \<and> (y mod 100 \<noteq> 0 \<or> y mod 400 = 0))"

definition days_in_month :: "nat \<Rightarrow> nat \<Rightarrow> nat" where
  "days_in_month y m =
     (if m = 2 then (if is_leap y then 29 else 28)
      else if m \<in> {4, 6, 9, 11} then 30 else 31)"

definition strptime :: "re \<Rightarrow> string \<Rightarrow> datetime option" where
  "strptime pattern text =
     (case re_match pattern text of
        None \<Rightarrow> None
      | Some st \<Rightarrow>
          if rest st \<noteq> [] then None
          else
            (let y = nat_of_digits (group_or_empty st ''Y'');
                 mo = nat_of_digits (group_or_empty st ''m'');
                 d = nat_of_digits (strip (group_or_empty st ''d''));
                 h = nat_of_digits (group_or_empty st ''H'');
                 mi = nat_of_digits (group_or_empty st ''M'');
                 sec = nat_of_digits (group_or_empty st ''S'');
                 f = (case group st ''f'' of
                        None \<Rightarrow> 0
                      | Some digits \<Rightarrow>
                          nat_of_digits (digits @ replicate (6 - length digits) CHR ''0''))
             in if y < 1 \<or> days_in_month y mo < d \<or> 59 < sec then None
                else Some \<lparr>year = y, month = mo, day = d, hour = h, minute = mi,
                            second = sec, microsecond = f\<rparr>))"

subsection \<open>\<open>ipaddress.ip_address\<close>\<close>

text \<open>
  \<open>ip_address\<close> accepts a text that the IPv4 or the IPv6 address class accepts: four
  decimal octets up to 255 without leading zeros, or up to eight groups of at most four
  hexadecimal digits, with one \<open>::\<close> for a run of zero groups, the last two groups
  possibly written as an IPv4 address, and a non-empty scope after \<open>%\<close>.
\<close>

definition parse_octet :: "string \<Rightarrow> bool" where
  "parse_octet s =
     (s \<noteq> [] \<and> list_all is_ascii_digit s \<and> length s \<le> 3
        \<and> (s = ''0'' \<or> hd s \<noteq> CHR ''0'') \<and> nat_of_digits s \<le> 255)"

definition is_ipv4 :: "string \<Rightarrow> bool" where
  "is_ipv4 s =
     (CHR ''/'' \<notin> set s \<and> s \<noteq> []
        \<and> (let octets = split_on CHR ''.'' s in length octets = 4 \<and> list_all parse_octet octets))"

definition is_hex_digit :: "char \<Rightarrow> bool" where
  "is_hex_digit c = (let n = (of_char c :: nat) in
     (48 \<le> n \<and> n \<le> 57) \<or> (65 \<le> n \<and> n \<le> 70) \<or> (97 \<le> n \<and> n \<le> 102))"

definition parse_hextet :: "string \<Rightarrow> bool" where
  "parse_hextet s = (s \<noteq> [] \<and> list_all is_hex_digit s \<and> length s \<le> 4)"

definition ipv6_parts_ok :: "string list \<Rightarrow> bool" where
  \<comment> \<open>the checks on the colon-separated parts, once an IPv4 suffix has been replaced by
     two groups\<close>
  "ipv6_parts_ok parts =
     (let n = length parts;
          skips = filter (\<lambda>i. parts ! i = []) [1 ..< n - 1]
      in if n > 9 then False
         else if length skips > 1 then False
         else (case skips of
             i # _ \<Rightarrow>
               (let hi0 = i; lo0 = n - i - 1;
                    hi = (if hd parts = [] then hi0 - 1 else hi0);
                    lo = (if last parts = [] then lo0 - 1 else lo0)
                in (if hd parts = [] then hi = 0 else True)
                   \<and> (if last parts = [] then lo = 0 else True)
                   \<and> hi + lo < 8
                   \<and> list_all parse_hextet (take hi parts)
                   \<and> list_all parse_hextet (drop (n - lo) parts))
           | [] \<Rightarrow> n = 8 \<and> list_all parse_hextet parts))"

definition is_ipv6 :: "string \<Rightarrow> bool" where
  "is_ipv6 s =
     (if CHR ''/'' \<in> set s then False
      else
        (let addr = takeWhile (\<lambda>c. c \<noteq> CHR ''%'') s;
             after = dropWhile (\<lambda>c. c \<noteq> CHR ''%'') s;
             scope_ok = (after = [] \<or> (tl after \<noteq> [] \<and> CHR ''%'' \<notin> set (tl after)))
         in if \<not> scope_ok \<or> addr = [] then False
            else
              (let parts = split_on CHR '':'' addr
               in if length parts < 3 then False
                  else if CHR ''.'' \<in> set (last parts)
                    then is_ipv4 (last parts) \<and> ipv6_parts_ok (butlast parts @ [''0'', ''0''])
                  else ipv6_parts_ok parts)))"

definition ip_address_ok :: "string \<Rightarrow> bool" where
  \<comment> \<open>\<open>ipaddress.ip_address(value)\<close> returns rather than raising \<open>ValueError\<close>\<close>
  "ip_address_ok s = (is_ipv4 s \<or> is_ipv6 s)"

subsection \<open>Floating point numbers\<close>

text \<open>
  A Python \<open>float\<close> is an IEEE 754 double: a rational with a 53-bit significand, an
  infinity or a NaN. Every operation returns the exact result rounded to the nearest
  double, ties to the even significand; a result of magnitude \<open>2 ^ 1024\<close> or more is an
  infinity. The sign of a zero is not modelled.
\<close>

datatype pyfloat = Fin rat | PosInf | NegInf | NaN

definition pow2 :: "int \<Rightarrow> rat" where
  "pow2 e = (if 0 \<le> e then 2 ^ nat e else 1 / 2 ^ nat (- e))"

fun bit_length :: "nat \<Rightarrow> nat" where
  "bit_length n = (if n = 0 then 0 else Suc (bit_length (n div 2)))"

definition floor_log2 :: "rat \<Rightarrow> int" where
  \<comment> \<open>for a positive \<open>x\<close>, the \<open>e\<close> with \<open>2 ^ e \<le> x < 2 ^ (e + 1)\<close>\<close>
  "floor_log2 x =
     (let (p, q) = quotient_of x;
          e0 = int (bit_length (nat p)) - int (bit_length (nat q))
      in if pow2 e0 \<le> x then e0 else e0 - 1)"

definition round_half_even :: "rat \<Rightarrow> int" where
  "round_half_even m =
     (let f = \<lfloor>m\<rfloor>; d = m - of_int f
      in if d < 1 / 2 then f else if 1 / 2 < d then f + 1 else if even f then f else f + 1)"

definition round_double :: "rat \<Rightarrow> pyfloat" where
  "round_double x =
     (if x = 0 then Fin 0
      else
        (let a = \<bar>x\<bar>;
             e = max (floor_log2 a) (- 1022);
             ulp = pow2 (e - 52);
             r = of_int (round_half_even (a / ulp)) * ulp
         in if pow2 1024 \<le> r then (if 0 < x then PosInf else NegInf)
            else Fin (if 0 < x then r else - r)))"

definition float_of_int :: "int \<Rightarrow> py_error + pyfloat" where
  \<comment> \<open>\<open>float(n)\<close> for an \<open>int\<close>: too large a number raises \<open>OverflowError\<close>\<close>
  "float_of_int n =
     (case round_double (of_int n) of Fin r \<Rightarrow> Inr (Fin r) | _ \<Rightarrow> Inl OverflowError)"

definition fl_mul_int :: "pyfloat \<Rightarrow> int \<Rightarrow> pyfloat" where
  \<comment> \<open>\<open>x * n\<close> for a float and a positive \<open>int\<close> a double holds exactly\<close>
  "fl_mul_int x n = (case x of Fin a \<Rightarrow> round_double (a * of_int n) | other \<Rightarrow> other)"

definition fl_div_int :: "pyfloat \<Rightarrow> int \<Rightarrow> pyfloat" where
  \<comment> \<open>\<open>x / n\<close> for a float and a positive \<open>int\<close> a double holds exactly\<close>
  "fl_div_int x n = (case x of Fin a \<Rightarrow> round_double (a / of_int n) | other \<Rightarrow> other)"

definition int_of_float :: "pyfloat \<Rightarrow> py_error + int" where
  \<comment> \<open>\<open>int(x)\<close>: truncation toward zero; an infinity raises \<open>OverflowError\<close>, a NaN
     \<open>ValueError\<close>\<close>
  "int_of_float x =
     (case x of
        Fin a \<Rightarrow> Inr (if 0 \<le> a then \<lfloor>a\<rfloor> else - \<lfloor>- a\<rfloor>)
      | NaN \<Rightarrow> Inl ValueError
      | _ \<Rightarrow> Inl OverflowError)"

definition float_of_decimal :: "string \<Rightarrow> pyfloat" where
  \<comment> \<open>\<open>float(s)\<close> for a text of the shape \<open>\d+(\.\d+)?\<close>: the decimal number, rounded\<close>
  "float_of_decimal s =
     (let ip = takeWhile (\<lambda>c. c \<noteq> CHR ''.'') s;
          fp = drop 1 (dropWhile (\<lambda>c. c \<noteq> CHR ''.'') s)
      in round_double (of_nat (nat_of_digits ip) + of_nat (nat_of_digits fp) / 10 ^ length fp))"

section \<open>Access log parser (parser.py)\<close>

definition ACCESS_RE :: re where
  "ACCESS_RE = seqs [Bol, lit ''from'', plus CSpace,
     Grp ''src'' (plus CNonSpace), plus CSpace,
     Grp ''status'' (alts [lit ''accepted'', lit ''rejected'']), plus CSpace,
     Grp ''dest'' (plus CNonSpace),
     opt (seqs [plus CSpace, lit ''['',
                Grp ''detour'' (plus (CNotSet [(CHR '']'', CHR '']'')])), lit '']'']),
     Grp ''tail'' (star CDot), Eol]"

definition DNS_RE :: re where
  "DNS_RE = seqs [Bol, Grp ''server'' (Rep 1 None False (Atom CDot)), plus CSpace,
     Grp ''status'' (alts [lit ''got answer:'', lit ''cache HIT:'', lit ''cache OPTIMISTE:'']),
     plus CSpace, Grp ''domain'' (plus CNonSpace), plus CSpace, lit ''->'', plus CSpace,
     lit ''['', Grp ''ips'' (star (CNotSet [(CHR '']'', CHR '']'')])), lit '']'',
     Grp ''tail'' (star CDot), Eol]"

definition split_space_3 :: "string \<Rightarrow> (string \<times> string \<times> string) option" where
  \<comment> \<open>\<open>s.split(" ", 2)\<close> when it gives three parts\<close>
  "split_space_3 s =
     (let p0 = takeWhile (\<lambda>c. c \<noteq> CHR '' '') s;
          r0 = dropWhile (\<lambda>c. c \<noteq> CHR '' '') s
      in if r0 = [] then None
         else
           (let p1 = takeWhile (\<lambda>c. c \<noteq> CHR '' '') (tl r0);
                r1 = dropWhile (\<lambda>c. c \<noteq> CHR '' '') (tl r0)
            in if r1 = [] then None else Some (p0, p1, tl r1)))"

definition parse_timestamp_prefix :: "string \<Rightarrow> datetime option \<times> string" where
  "parse_timestamp_prefix line =
     (case split_space_3 (strip line) of
        None \<Rightarrow> (None, [])
      | Some (p0, p1, p2) \<Rightarrow>
          (let stamp = p0 @ '' '' @ p1; body = strip p2
           in case strptime STRPTIME_MICROS_RE stamp of
                Some t \<Rightarrow> (Some t, body)
              | None \<Rightarrow>
                  (case strptime STRPTIME_SECONDS_RE stamp of
                     Some t \<Rightarrow> (Some t, body)
                   | None \<Rightarrow> (None, []))))"

definition DURATION_RE :: re where
  "DURATION_RE = seqs [Bol,
     Grp ''1'' (seqs [plus CDigit, opt (seqs [lit ''.'', plus CDigit])]),
     Grp ''2'' (alts [lit ''ns'', lit ''us'', lit ''ms'', lit ''s'', lit ''m'', lit ''h'']),
     Eol]"

definition parse_duration_ms :: "string \<Rightarrow> py_error + int option" where
  "parse_duration_ms raw =
     (let token = replace_all [CHR 0xB5, CHR ''s''] ''us'' 0 (strip raw)
      in if token = [] then Inr None
         else
           (case re_match DURATION_RE token of
              None \<Rightarrow> Inr None
            | Some m \<Rightarrow>
                (let v = float_of_decimal (group_or_empty m ''1'');
                     unit = group_or_empty m ''2'';
                     ms = (if unit = ''ns'' then Some (fl_div_int v 1000000)
                           else if unit = ''us'' then Some (fl_div_int v 1000)
                           else if unit = ''ms'' then Some v
                           else if unit = ''s'' then Some (fl_mul_int v 1000)
                           else if unit = ''m'' then Some (fl_mul_int v 60000)
                           else if unit = ''h'' then Some (fl_mul_int v 3600000)
                           else None)
                 in case ms of
                      None \<Rightarrow> Inr None
                    | Some x \<Rightarrow> map_sum id Some (int_of_float x))))"

definition is_ip :: "string \<Rightarrow> bool" where
  "is_ip v = ip_address_ok v"

section \<open>Properties\<close>

lemma should_drop_event_access:
  "access ev = Some a \<Longrightarrow>
     should_drop_event ev cfg =
       (spec_api_to_api cfg a \<or> spec_excluded_detour cfg a
          \<or> spec_invalid_vless_probe cfg a \<or> spec_loopback cfg a)"
  unfolding should_drop_event_def spec_api_to_api_def spec_excluded_detour_def
    spec_invalid_vless_probe_def spec_loopback_def
  by (auto simp: Let_def)

text \<open>
  Claim C9. \<open>should_drop_event\<close> is a function of the event and the filter configuration
  alone. An event without an access payload (a DNS or an unknown event) is never dropped,
  and an access event is dropped exactly when one of the four configured predicates
  holds: the api-to-api detour, the excluded detour set, the invalid VLESS probe, the
  loopback source or destination.
\<close>

theorem should_drop_event_iff:
  "should_drop_event ev cfg =
     (case access ev of
        None \<Rightarrow> False
      | Some a \<Rightarrow> spec_api_to_api cfg a \<or> spec_excluded_detour cfg a
                   \<or> spec_invalid_vless_probe cfg a \<or> spec_loopback cfg a)"
proof (cases "access ev")
  case None
  then show ?thesis by (simp add: should_drop_event_def)
next
  case (Some a)
  then show ?thesis by (simp add: should_drop_event_access)
qed

end
